theory Spec2Isabelle
  imports Main
begin

section \<open>Values, exceptions and dictionaries\<close>

text \<open>
  The service is Python. Exceptions are values of \<open>exn\<close>; a function that can raise
  returns \<open>exn + 'a\<close> with \<open>Inl\<close> the raised exception. \<open>ExternalError\<close> stands for
  whatever an external client (the store, the HTTP client) raises, with its message.
\<close>

datatype exn =
    KeyError string
  | IndexError
  | TypeError
  | ValueError string
  | AttributeError
  | ExternalError string

text \<open>Python's \<open>str(e)\<close> on an exception, as the handlers interpolate it.\<close>

fun str_exn :: "exn \<Rightarrow> string" where
  "str_exn (KeyError k) = [CHR 0x27] @ k @ [CHR 0x27]"
| "str_exn IndexError = ''list index out of range''"
| "str_exn TypeError = ''type error''"
| "str_exn (ValueError m) = m"
| "str_exn AttributeError = ''attribute error''"
| "str_exn (ExternalError m) = m"

text \<open>
  A daily value of the forecast response: JSON null, a string, or a number. Numbers are
  kept abstract (type \<open>'n\<close>): floating point is outside the model.
\<close>

datatype 'n pyval = PNone | PStr string | PNum 'n

text \<open>
  A Python dict keeps insertion order, so a dict is an association list. \<open>dict_get\<close> is
  \<open>d.get(k, default)\<close>, \<open>dict_item\<close> is \<open>d[k]\<close>, which raises KeyError.
\<close>

definition dict_get :: "('k \<times> 'v) list \<Rightarrow> 'k \<Rightarrow> 'v \<Rightarrow> 'v" where
  "dict_get d k dflt = (case map_of d k of None \<Rightarrow> dflt | Some v \<Rightarrow> v)"

definition dict_item :: "(string \<times> 'v) list \<Rightarrow> string \<Rightarrow> exn + 'v" where
  "dict_item d k = (case map_of d k of None \<Rightarrow> Inl (KeyError k) | Some v \<Rightarrow> Inr v)"

definition keys :: "('k \<times> 'v) list \<Rightarrow> 'k list" where
  "keys d = map fst d"

section \<open>Weather code tables of get_weather_stats\<close>

definition weather_codes :: "(int \<times> string) list" where
  "weather_codes =
    [(0, ''Clear sky''),
     (1, ''Mainly clear''),
     (2, ''Partly cloudy''),
     (3, ''Overcast''),
     (45, ''Foggy''),
     (48, ''Depositing rime fog''),
     (51, ''Light drizzle''),
     (53, ''Moderate drizzle''),
     (55, ''Dense drizzle''),
     (61, ''Slight rain''),
     (63, ''Moderate rain''),
     (65, ''Heavy rain''),
     (71, ''Slight snow fall''),
     (73, ''Moderate snow fall''),
     (75, ''Heavy snow fall''),
     (77, ''Snow grains''),
     (80, ''Slight rain showers''),
     (81, ''Moderate rain showers''),
     (82, ''Violent rain showers''),
     (85, ''Slight snow showers''),
     (86, ''Heavy snow showers''),
     (95, ''Thunderstorm''),
     (96, ''Thunderstorm with slight hail''),
     (99, ''Thunderstorm with heavy hail'')]"

definition icon_map :: "(int \<times> string) list" where
  "icon_map =
    [(0, ''01d''), (1, ''01d''), (2, ''02d''), (3, ''03d''), (45, ''03d''), (48, ''03d''),
     (51, ''09d''), (53, ''09d''), (55, ''09d''), (61, ''09d''), (63, ''09d''), (65, ''09d''),
     (71, ''13d''), (73, ''13d''), (75, ''13d''), (77, ''13d''), (80, ''09d''), (81, ''09d''),
     (82, ''09d''), (85, ''13d''), (86, ''13d''), (95, ''11d''), (96, ''11d''), (99, ''11d'')]"

text \<open>
  \<open>row['CurrentWeatherCode']\<close> is an integer or null; \<open>None\<close> is no key of either table,
  so \<open>.get\<close> gives the default for it.
\<close>

definition weather_description_of :: "int option \<Rightarrow> string" where
  "weather_description_of weather_code =
     (case weather_code of None \<Rightarrow> ''Unknown'' | Some c \<Rightarrow> dict_get weather_codes c ''Unknown'')"

definition icon_code_of :: "int option \<Rightarrow> string" where
  "icon_code_of weather_code =
     (case weather_code of None \<Rightarrow> ''01d'' | Some c \<Rightarrow> dict_get icon_map c ''01d'')"

definition weather_icon_url_of :: "string \<Rightarrow> string" where
  "weather_icon_url_of icon_code = ''https://openweathermap.org/img/wn/'' @ icon_code @ ''@2x.png''"

section \<open>Text helpers\<close>

text \<open>
  \<open>sep.join(xs)\<close> on a list of strings. \<open>str_join\<close> is the same on a list of values and
  raises TypeError as Python does when an item is not a string.
\<close>

fun join_str :: "string \<Rightarrow> string list \<Rightarrow> string" where
  "join_str sep [] = []"
| "join_str sep [x] = x"
| "join_str sep (x # y # ys) = x @ sep @ join_str sep (y # ys)"

fun the_strs :: "'n pyval list \<Rightarrow> exn + string list" where
  "the_strs [] = Inr []"
| "the_strs (PStr x # vs) = (case the_strs vs of Inl e \<Rightarrow> Inl e | Inr xs \<Rightarrow> Inr (x # xs))"
| "the_strs (v # vs) = Inl TypeError"

definition str_join :: "string \<Rightarrow> 'n pyval list \<Rightarrow> exn + string" where
  "str_join sep vs = (case the_strs vs of Inl e \<Rightarrow> Inl e | Inr xs \<Rightarrow> Inr (join_str sep xs))"

text \<open>\<open>str.lower()\<close> and \<open>str.capitalize()\<close>, on ASCII letters.\<close>

definition lower_char :: "char \<Rightarrow> char" where
  "lower_char c =
     (if 65 \<le> (of_char c :: nat) \<and> (of_char c :: nat) \<le> 90 then char_of ((of_char c :: nat) + 32) else c)"

definition upper_char :: "char \<Rightarrow> char" where
  "upper_char c =
     (if 97 \<le> (of_char c :: nat) \<and> (of_char c :: nat) \<le> 122 then char_of ((of_char c :: nat) - 32) else c)"

definition str_lower :: "string \<Rightarrow> string" where
  "str_lower s = map lower_char s"

definition str_capitalize :: "string \<Rightarrow> string" where
  "str_capitalize s = (case s of [] \<Rightarrow> [] | c # cs \<Rightarrow> upper_char c # map lower_char cs)"

text \<open>\<open>v.lower()\<close> on a value: only a string has the method.\<close>

definition py_lower :: "'n pyval \<Rightarrow> exn + string" where
  "py_lower v = (case v of PStr s \<Rightarrow> Inr (str_lower s) | _ \<Rightarrow> Inl AttributeError)"

text \<open>
  The loop \<open>for x in xs: acc.append(f(x))\<close> where \<open>f\<close> may raise: the first exception
  ends the loop.
\<close>

fun try_map :: "('a \<Rightarrow> exn + 'b) \<Rightarrow> 'a list \<Rightarrow> exn + 'b list" where
  "try_map f [] = Inr []"
| "try_map f (x # xs) =
     (case f x of
        Inl e \<Rightarrow> Inl e
      | Inr y \<Rightarrow> (case try_map f xs of Inl e \<Rightarrow> Inl e | Inr ys \<Rightarrow> Inr (y # ys)))"

section \<open>Calendar dates\<close>

text \<open>
  The date part of a \<open>datetime\<close>. The ordinal is the standard library's
  \<open>_ymd2ord\<close>: \<open>(a - b).days\<close> is the difference of the ordinals.
\<close>

record date =
  year :: nat
  month :: nat
  day :: nat

definition is_leap :: "nat \<Rightarrow> bool" where
  "is_leap y = (y mod 4 = 0 \<and> (y mod 100 \<noteq> 0 \<or> y mod 400 = 0))"

definition DAYS_IN_MONTH :: "nat list" where
  "DAYS_IN_MONTH = [31, 28, 31, 30, 31, 30, 31, 31, 30, 31, 30, 31]"

definition days_in_month :: "nat \<Rightarrow> nat \<Rightarrow> nat" where
  "days_in_month y m = (if m = 2 \<and> is_leap y then 29 else DAYS_IN_MONTH ! (m - 1))"

definition days_before_year :: "nat \<Rightarrow> int" where
  "days_before_year y =
     (let p = int y - 1 in p * 365 + p div 4 - p div 100 + p div 400)"

definition days_before_month :: "nat \<Rightarrow> nat \<Rightarrow> int" where
  "days_before_month y m =
     int (sum_list (take (m - 1) DAYS_IN_MONTH)) + (if m > 2 \<and> is_leap y then 1 else 0)"

definition toordinal :: "date \<Rightarrow> int" where
  "toordinal d = days_before_year (year d) + days_before_month (year d) (month d) + int (day d)"

text \<open>What the \<open>date\<close> constructor accepts (MINYEAR 1, MAXYEAR 9999).\<close>

definition valid_date :: "date \<Rightarrow> bool" where
  "valid_date d =
     (1 \<le> year d \<and> year d \<le> 9999 \<and> 1 \<le> month d \<and> month d \<le> 12 \<and>
      1 \<le> day d \<and> day d \<le> days_in_month (year d) (month d))"

text \<open>
  \<open>strftime('%Y-%m-%d')\<close> as the library documents it: zero-padded year (4 digits),
  month and day (2 digits). The platform's C library may leave a year below 1000
  unpadded; the claims about formatted dates are stated for years from 1000 on.
\<close>

definition digit_char :: "nat \<Rightarrow> char" where
  "digit_char n = char_of (48 + n mod 10)"

definition strftime_ymd :: "date \<Rightarrow> string" where
  "strftime_ymd d =
     [digit_char (year d div 1000), digit_char (year d div 100),
      digit_char (year d div 10), digit_char (year d)] @ ''-'' @
     [digit_char (month d div 10), digit_char (month d)] @ ''-'' @
     [digit_char (day d div 10), digit_char (day d)]"

text \<open>
  \<open>datetime.strptime(s, '%Y-%m-%d').date()\<close>: three fields of digits separated by
  \<open>-\<close>, a four-digit year, a month and a day of one or two digits, and a date the
  constructor accepts; ValueError otherwise.
\<close>

definition is_digit :: "char \<Rightarrow> bool" where
  "is_digit c = (48 \<le> (of_char c :: nat) \<and> (of_char c :: nat) \<le> 57)"

definition digits_val :: "string \<Rightarrow> nat" where
  "digits_val s = foldl (\<lambda>a c. 10 * a + ((of_char c :: nat) - 48)) 0 s"

fun split_on :: "char \<Rightarrow> string \<Rightarrow> string list" where
  "split_on c [] = [[]]"
| "split_on c (x # xs) =
     (if x = c then [] # split_on c xs
      else (case split_on c xs of [] \<Rightarrow> [[x]] | w # ws \<Rightarrow> (x # w) # ws))"

definition strptime_ymd :: "string \<Rightarrow> exn + date" where
  "strptime_ymd s =
     (case split_on (CHR ''-'') s of
        [ys, ms, ds] \<Rightarrow>
          if length ys = 4 \<and> list_all is_digit ys \<and>
             (length ms = 1 \<or> length ms = 2) \<and> list_all is_digit ms \<and>
             (length ds = 1 \<or> length ds = 2) \<and> list_all is_digit ds
          then
            (let d = \<lparr>year = digits_val ys, month = digits_val ms, day = digits_val ds\<rparr>
             in if valid_date d then Inr d else Inl (ValueError ''day is out of range for month''))
          else Inl (ValueError ''time data does not match format'')
      | _ \<Rightarrow> Inl (ValueError ''time data does not match format''))"

section \<open>External services and the trace of a request\<close>

text \<open>
  The forecast response, as \<open>weather_response.json()\<close> returns it: the series under
  \<open>daily\<close> when the key is there, and the names of the other keys. A series
  (\<open>daily_data\<close>) maps an attribute name to its list of daily values.
\<close>

type_synonym 'n daily_data = "(string \<times> 'n pyval list) list"

record 'n weather_json =
  daily :: "'n daily_data option"
  other_keys :: "string list"

text \<open>One entry of the geocoder's \<open>results\<close>.\<close>

record 'n geo_result =
  latitude :: 'n
  longitude :: 'n
  name :: string

text \<open>The row of the freshness query: \<open>LatestDate = max(Date), DataPoints = count()\<close>.\<close>

record latest_row =
  LatestDate :: "date option"
  DataPoints :: int

text \<open>The row of the statistics query; a column is null (\<open>PNone\<close>) or a number.\<close>

record 'n stats_row =
  MinTemp :: "'n pyval"
  MaxTemp :: "'n pyval"
  AvgTemp :: "'n pyval"
  MinWind :: "'n pyval"
  MaxWind :: "'n pyval"
  AvgWind :: "'n pyval"
  CurrentMaxTemp :: "'n pyval"
  CurrentMinTemp :: "'n pyval"
  CurrentWind :: "'n pyval"
  CurrentWeatherCode :: "int option"

text \<open>
  \<open>response.primary_results[0]\<close> is a result table, held here as the list of its rows.
  The truth value of a table is that of \<open>any(self.columns)\<close>: a table with a column is
  truthy, with rows or without. Every table here is the result of a query that names
  its columns, so \<open>not table\<close> is false for it, and \<open>table[0]\<close> on a table without
  rows raises IndexError.
\<close>

definition table_truthy :: "'r list \<Rightarrow> bool" where
  "table_truthy rows = True"

definition table_first :: "'r list \<Rightarrow> exn + 'r" where
  "table_first rows = (case rows of [] \<Rightarrow> Inl IndexError | r # rest \<Rightarrow> Inr r)"

text \<open>
  The collaborators of the pipeline, over a state \<open>'w\<close> of the outside world (the store,
  the network, the clock). A call returns its result, or the exception it raised, and
  the world after it. The queries are the ones the source builds, each with the city
  it interpolates; \<open>primary_results[0]\<close> is the list of rows returned.
\<close>

record ('w, 'n) services =
  query_client_ok :: bool
  ingest_client_ok :: bool
  now_date :: "'w \<Rightarrow> date"
  execute_latest_date :: "string \<Rightarrow> 'w \<Rightarrow> (exn + latest_row list) \<times> 'w"
  execute_existing_dates :: "string \<Rightarrow> 'w \<Rightarrow> (exn + string list list) \<times> 'w"
  execute_stats :: "string \<Rightarrow> 'w \<Rightarrow> (exn + 'n stats_row list) \<times> 'w"
  execute_record_count :: "string \<Rightarrow> 'w \<Rightarrow> (exn + int list) \<times> 'w"
  geo_get :: "string \<Rightarrow> 'w \<Rightarrow> (exn + 'n geo_result list option) \<times> 'w"
  forecast_get :: "'n pyval \<Rightarrow> 'n pyval \<Rightarrow> 'w \<Rightarrow> (exn + 'n weather_json) \<times> 'w"
  ingest_from_stream :: "string \<Rightarrow> 'w \<Rightarrow> (exn + unit) \<times> 'w"
  str_num :: "'n \<Rightarrow> string"
  round1 :: "'n \<Rightarrow> 'n"

text \<open>
  The trace of a request: what was called, in order. These are the calls of the
  external services, the freshness checks and the calls of \<open>prepare_ingestion_data\<close>.
  A freshness check is logged with what it returned, an ingest call with the batch
  and whether it returned normally.
\<close>

datatype event =
    Ev_geo string
  | Ev_check string "exn + bool \<times> string"
  | Ev_forecast
  | Ev_existing_dates string
  | Ev_prepare string
  | Ev_ingest string bool
  | Ev_record_count string
  | Ev_sleep nat
  | Ev_stats string

type_synonym 'w state = "'w \<times> event list"

definition call_geo ::
  "('w, 'n) services \<Rightarrow> string \<Rightarrow> 'w state \<Rightarrow> (exn + 'n geo_result list option) \<times> 'w state" where
  "call_geo sv city s =
     (case geo_get sv city (fst s) of (r, w') \<Rightarrow> (r, (w', snd s @ [Ev_geo city])))"

definition call_forecast ::
  "('w, 'n) services \<Rightarrow> 'n pyval \<Rightarrow> 'n pyval \<Rightarrow> 'w state \<Rightarrow> (exn + 'n weather_json) \<times> 'w state" where
  "call_forecast sv lat lon s =
     (case forecast_get sv lat lon (fst s) of (r, w') \<Rightarrow> (r, (w', snd s @ [Ev_forecast])))"

definition call_existing_dates ::
  "('w, 'n) services \<Rightarrow> string \<Rightarrow> 'w state \<Rightarrow> (exn + string list list) \<times> 'w state" where
  "call_existing_dates sv city s =
     (case execute_existing_dates sv city (fst s) of
        (r, w') \<Rightarrow> (r, (w', snd s @ [Ev_existing_dates city])))"

definition call_ingest ::
  "('w, 'n) services \<Rightarrow> string \<Rightarrow> 'w state \<Rightarrow> (exn + unit) \<times> 'w state" where
  "call_ingest sv csv_data s =
     (case ingest_from_stream sv csv_data (fst s) of
        (r, w') \<Rightarrow> (r, (w', snd s @ [Ev_ingest csv_data (\<not> isl r)])))"

definition call_record_count ::
  "('w, 'n) services \<Rightarrow> string \<Rightarrow> 'w state \<Rightarrow> (exn + int list) \<times> 'w state" where
  "call_record_count sv city s =
     (case execute_record_count sv city (fst s) of
        (r, w') \<Rightarrow> (r, (w', snd s @ [Ev_record_count city])))"

definition call_stats ::
  "('w, 'n) services \<Rightarrow> string \<Rightarrow> 'w state \<Rightarrow> (exn + 'n stats_row list) \<times> 'w state" where
  "call_stats sv city s =
     (case execute_stats sv city (fst s) of (r, w') \<Rightarrow> (r, (w', snd s @ [Ev_stats city])))"

definition sleep :: "nat \<Rightarrow> 'w state \<Rightarrow> 'w state" where
  "sleep n s = (fst s, snd s @ [Ev_sleep n])"

section \<open>src/image/main.py\<close>

subsection \<open>get_city_coordinates, get_weather_data\<close>

text \<open>
  The tuple returned is \<open>(latitude, longitude, name)\<close> of the first result, or
  \<open>(None, None, None)\<close> when there is no result or the lookup raised.
\<close>

definition get_city_coordinates ::
  "('w, 'n) services \<Rightarrow> string \<Rightarrow> 'w state \<Rightarrow> ('n pyval \<times> 'n pyval \<times> 'n pyval) \<times> 'w state" where
  "get_city_coordinates sv city s =
     (case call_geo sv city s of
        (Inl e, s') \<Rightarrow> ((PNone, PNone, PNone), s')
      | (Inr geo_data, s') \<Rightarrow>
          (case geo_data of
             Some (result # rest) \<Rightarrow>
               ((PNum (latitude result), PNum (longitude result), PStr (name result)), s')
           | _ \<Rightarrow> ((PNone, PNone, PNone), s')))"

definition get_weather_data ::
  "('w, 'n) services \<Rightarrow> 'n pyval \<Rightarrow> 'n pyval \<Rightarrow> 'w state \<Rightarrow> 'n weather_json option \<times> 'w state" where
  "get_weather_data sv lat lon s =
     (case call_forecast sv lat lon s of
        (Inl e, s') \<Rightarrow> (None, s')
      | (Inr j, s') \<Rightarrow> (Some j, s'))"

text \<open>
  \<open>not weather_data or "daily" not in weather_data\<close>, and \<open>weather_data["daily"]\<close>.
\<close>

definition weather_data_invalid :: "'n weather_json option \<Rightarrow> bool" where
  "weather_data_invalid weather_data =
     (case weather_data of
        None \<Rightarrow> True
      | Some j \<Rightarrow> (daily j = None \<and> other_keys j = []) \<or> daily j = None)"

definition weather_data_daily :: "'n weather_json option \<Rightarrow> exn + 'n daily_data" where
  "weather_data_daily weather_data =
     (case weather_data of
        None \<Rightarrow> Inl TypeError
      | Some j \<Rightarrow> (case daily j of None \<Rightarrow> Inl (KeyError ''daily'') | Some d \<Rightarrow> Inr d))"

subsection \<open>prepare_ingestion_data\<close>

text \<open>\<open>str(value)\<close>, and \<open>str(value) if value is not None else ""\<close>.\<close>

definition py_str :: "('n \<Rightarrow> string) \<Rightarrow> 'n pyval \<Rightarrow> string" where
  "py_str sn v = (case v of PNone \<Rightarrow> ''None'' | PStr x \<Rightarrow> x | PNum n \<Rightarrow> sn n)"

definition cell :: "('n \<Rightarrow> string) \<Rightarrow> 'n pyval \<Rightarrow> string" where
  "cell sn v = (if v \<noteq> PNone then py_str sn v else [])"

text \<open>\<open>daily_data[attr][i]\<close>: KeyError without the key, IndexError past the end.\<close>

definition daily_at :: "'n daily_data \<Rightarrow> string \<Rightarrow> nat \<Rightarrow> exn + 'n pyval" where
  "daily_at daily_data attr i =
     (case dict_item daily_data attr of
        Inl e \<Rightarrow> Inl e
      | Inr xs \<Rightarrow> if i < length xs then Inr (xs ! i) else Inl IndexError)"

text \<open>
  The body of the loop over \<open>i\<close>: the row's values, city and date first, then one cell
  per weather attribute, joined with commas.
\<close>

definition row_values ::
  "('n \<Rightarrow> string) \<Rightarrow> string \<Rightarrow> 'n daily_data \<Rightarrow> 'n pyval list \<Rightarrow> string list \<Rightarrow> nat \<Rightarrow> exn + 'n pyval list" where
  "row_values sn city daily_data dates weather_attributes i =
     (case try_map (\<lambda>attr. case daily_at daily_data attr i of
                               Inl e \<Rightarrow> Inl e
                             | Inr v \<Rightarrow> Inr (PStr (cell sn v))) weather_attributes of
        Inl e \<Rightarrow> Inl e
      | Inr cells \<Rightarrow> Inr ([PStr city, dates ! i] @ cells))"

definition ingestion_row ::
  "('n \<Rightarrow> string) \<Rightarrow> string \<Rightarrow> 'n daily_data \<Rightarrow> 'n pyval list \<Rightarrow> string list \<Rightarrow> nat \<Rightarrow> exn + string" where
  "ingestion_row sn city daily_data dates weather_attributes i =
     (case row_values sn city daily_data dates weather_attributes i of
        Inl e \<Rightarrow> Inl e
      | Inr vs \<Rightarrow> str_join '','' vs)"

text \<open>
  The result is \<open>(ingestion_data, weather_attributes)\<close>, or \<open>None\<close> for the
  \<open>(None, None)\<close> of the exception handler.
\<close>

definition prepare_ingestion_data ::
  "('n \<Rightarrow> string) \<Rightarrow> string \<Rightarrow> 'n daily_data \<Rightarrow> (string list \<times> string list) option" where
  "prepare_ingestion_data sn city daily_data =
     (case dict_item daily_data ''time'' of
        Inl e \<Rightarrow> None
      | Inr dates \<Rightarrow>
          (let weather_attributes = filter (\<lambda>key. key \<noteq> ''time'') (keys daily_data) in
           case try_map (ingestion_row sn city daily_data dates weather_attributes)
                  [0 ..< length dates] of
             Inl e \<Rightarrow> None
           | Inr ingestion_data \<Rightarrow> Some (ingestion_data, weather_attributes)))"

text \<open>A call of the function, logged in the trace.\<close>

definition call_prepare ::
  "('w, 'n) services \<Rightarrow> string \<Rightarrow> 'n daily_data \<Rightarrow> 'w state \<Rightarrow>
     (string list \<times> string list) option \<times> 'w state" where
  "call_prepare sv city daily_data s =
     (prepare_ingestion_data (str_num sv) city daily_data, (fst s, snd s @ [Ev_prepare city]))"

subsection \<open>check_data_freshness\<close>

text \<open>The function after its store query: from the rows returned and today's date.\<close>

definition freshness_of :: "latest_row list \<Rightarrow> date \<Rightarrow> exn + bool \<times> string" where
  "freshness_of rows today =
     (if \<not> table_truthy rows then Inr (False, [])
      else
        (case table_first rows of
           Inl e \<Rightarrow> Inl e
         | Inr row \<Rightarrow>
             (case LatestDate row of
                None \<Rightarrow> Inr (False, [])
              | Some kusto_latest_date \<Rightarrow>
                  (let latest_date = strftime_ymd kusto_latest_date in
                   case strptime_ymd latest_date of
                     Inl e \<Rightarrow> Inl e
                   | Inr latest_date_obj \<Rightarrow>
                       (let date_difference = \<bar>toordinal today - toordinal latest_date_obj\<bar>;
                            is_fresh = (date_difference \<le> 1 \<and> DataPoints row \<ge> 30)
                        in Inr (is_fresh, latest_date))))))"

definition check_data_freshness ::
  "('w, 'n) services \<Rightarrow> string \<Rightarrow> 'w state \<Rightarrow> (exn + bool \<times> string) \<times> 'w state" where
  "check_data_freshness sv city s =
     (case execute_latest_date sv city (fst s) of
        (response, w') \<Rightarrow>
          (let out = (case response of
                        Inl e \<Rightarrow> Inl e
                      | Inr rows \<Rightarrow> freshness_of rows (now_date sv w'))
           in (out, (w', snd s @ [Ev_check city out]))))"

subsection \<open>The dedup filter of ensure_fresh_data\<close>

text \<open>
  \<open>existing_dates\<close> is the set of the strings the store returned, held here as their
  list. \<open>dates[i] not in existing_dates\<close>: a value that is no string is in no such set.
\<close>

definition not_in_existing :: "'n pyval \<Rightarrow> string list \<Rightarrow> bool" where
  "not_in_existing v existing_dates =
     (case v of PStr x \<Rightarrow> x \<notin> set existing_dates | _ \<Rightarrow> True)"

text \<open>\<open>filtered_daily_data[key].append(v)\<close>.\<close>

definition dict_append :: "'n daily_data \<Rightarrow> string \<Rightarrow> 'n pyval \<Rightarrow> 'n daily_data" where
  "dict_append filtered key v =
     map (\<lambda>(k, xs). if k = key then (k, xs @ [v]) else (k, xs)) filtered"

text \<open>The inner loop, over the keys, for a date index \<open>i\<close> that is kept.\<close>

fun append_index ::
  "'n daily_data \<Rightarrow> nat \<Rightarrow> string list \<Rightarrow> 'n daily_data \<Rightarrow> exn + 'n daily_data" where
  "append_index daily_data i [] filtered = Inr filtered"
| "append_index daily_data i (key # ks) filtered =
     (case daily_at daily_data key i of
        Inl e \<Rightarrow> Inl e
      | Inr v \<Rightarrow> append_index daily_data i ks (dict_append filtered key v))"

text \<open>The outer loop, over the date indices.\<close>

fun filter_loop ::
  "'n daily_data \<Rightarrow> string list \<Rightarrow> 'n pyval list \<Rightarrow> nat list \<Rightarrow> 'n daily_data \<Rightarrow> exn + 'n daily_data" where
  "filter_loop daily_data existing_dates dates [] filtered = Inr filtered"
| "filter_loop daily_data existing_dates dates (i # is) filtered =
     (if not_in_existing (dates ! i) existing_dates then
        (case append_index daily_data i (keys daily_data) filtered of
           Inl e \<Rightarrow> Inl e
         | Inr filtered' \<Rightarrow> filter_loop daily_data existing_dates dates is filtered')
      else filter_loop daily_data existing_dates dates is filtered)"

text \<open>
  Lines 206 to 217: the empty dict over the same keys, then the two loops.
\<close>

definition dedup_filter :: "'n daily_data \<Rightarrow> string list \<Rightarrow> exn + 'n daily_data" where
  "dedup_filter daily_data existing_dates =
     (let filtered_daily_data = map (\<lambda>key. (key, [])) (keys daily_data) in
      case dict_item daily_data ''time'' of
        Inl e \<Rightarrow> Inl e
      | Inr dates \<Rightarrow>
          filter_loop daily_data existing_dates dates [0 ..< length dates] filtered_daily_data)"

subsection \<open>ensure_fresh_data\<close>

text \<open>
  Lines 232 to 265: prepare the rows, append them, and run the freshness check again.
  Every exception from the ingest call on is caught and gives \<open>False\<close>.
\<close>

definition ingest_and_verify ::
  "('w, 'n) services \<Rightarrow> string \<Rightarrow> 'n daily_data \<Rightarrow> 'w state \<Rightarrow> (exn + bool) \<times> 'w state" where
  "ingest_and_verify sv city daily_data s =
     (case call_prepare sv city daily_data s of
        (None, s0) \<Rightarrow> (Inr False, s0)
      | (Some (ingestion_data, attrs), s0) \<Rightarrow>
          if ingestion_data = [] then (Inr False, s0)
          else
            (let csv_data = join_str [CHR 0x0A] ingestion_data in
             case call_ingest sv csv_data s0 of
               (Inl e, s1) \<Rightarrow> (Inr False, s1)
             | (Inr u, s1) \<Rightarrow>
                 (case check_data_freshness sv city s1 of
                    (Inl e, s2) \<Rightarrow> (Inr False, s2)
                  | (Inr (is_fresh, new_latest_date), s2) \<Rightarrow>
                      if \<not> is_fresh then (Inr False, s2) else (Inr True, s2))))"

text \<open>
  Lines 199 to 202: the empty set, replaced by the dates of the first row when the
  table is truthy.
\<close>

definition existing_dates_of :: "string list list \<Rightarrow> exn + string list" where
  "existing_dates_of rows =
     (if table_truthy rows then
        (case table_first rows of Inl e \<Rightarrow> Inl e | Inr r \<Rightarrow> Inr r)
      else Inr [])"

text \<open>
  Lines 188 to 230, entered when \<open>latest_date\<close> is not empty: \<open>Inl\<close> is an early
  \<open>return\<close> with that value, \<open>Inr\<close> the series to go on with. Every exception in
  the block is caught and gives \<open>False\<close>.
\<close>

definition dedup_existing ::
  "('w, 'n) services \<Rightarrow> string \<Rightarrow> 'n daily_data \<Rightarrow> 'w state \<Rightarrow> (bool + 'n daily_data) \<times> 'w state" where
  "dedup_existing sv city daily_data s =
     (case call_existing_dates sv (str_lower city) s of
        (Inl e, s1) \<Rightarrow> (Inl False, s1)
      | (Inr rows, s1) \<Rightarrow>
          (case existing_dates_of rows of
             Inl e \<Rightarrow> (Inl False, s1)
           | Inr existing_dates \<Rightarrow>
               (case dedup_filter daily_data existing_dates of
                  Inl e \<Rightarrow> (Inl False, s1)
                | Inr filtered_daily_data \<Rightarrow>
                    (case dict_item filtered_daily_data ''time'' of
                       Inl e \<Rightarrow> (Inl False, s1)
                     | Inr t \<Rightarrow>
                         if t = [] then (Inl True, s1) else (Inr filtered_daily_data, s1)))))"

definition ensure_fresh_data ::
  "('w, 'n) services \<Rightarrow> string \<Rightarrow> 'n pyval \<Rightarrow> 'n pyval \<Rightarrow> 'w state \<Rightarrow> (exn + bool) \<times> 'w state" where
  "ensure_fresh_data sv city lat lon s =
     (case check_data_freshness sv city s of
        (Inl e, s1) \<Rightarrow> (Inl e, s1)
      | (Inr (is_fresh, latest_date), s1) \<Rightarrow>
          if \<not> is_fresh then
            (case get_weather_data sv lat lon s1 of
               (weather_data, s2) \<Rightarrow>
                 if weather_data_invalid weather_data then (Inr False, s2)
                 else
                   (case weather_data_daily weather_data of
                      Inl e \<Rightarrow> (Inl e, s2)
                    | Inr daily_data \<Rightarrow>
                        if latest_date \<noteq> [] then
                          (case dedup_existing sv city daily_data s2 of
                             (Inl b, s3) \<Rightarrow> (Inr b, s3)
                           | (Inr filtered_daily_data, s3) \<Rightarrow>
                               ingest_and_verify sv city filtered_daily_data s3)
                        else ingest_and_verify sv city daily_data s2))
          else (Inr True, s1))"

subsection \<open>get_weather_stats\<close>

text \<open>\<open>round(x, 1)\<close>: TypeError on null.\<close>

definition py_round1 :: "('w, 'n) services \<Rightarrow> 'n pyval \<Rightarrow> exn + 'n pyval" where
  "py_round1 sv v = (case v of PNum n \<Rightarrow> Inr (PNum (round1 sv n)) | _ \<Rightarrow> Inl TypeError)"

text \<open>The dict returned, or \<open>None\<close> when the result table is falsy.\<close>

definition get_weather_stats ::
  "('w, 'n) services \<Rightarrow> string \<Rightarrow> 'w state \<Rightarrow> (exn + (string \<times> 'n pyval) list option) \<times> 'w state" where
  "get_weather_stats sv city s =
     (case call_stats sv city s of
        (Inl e, s1) \<Rightarrow> (Inl e, s1)
      | (Inr rows, s1) \<Rightarrow>
          if \<not> table_truthy rows then (Inr None, s1)
          else
            (case table_first rows of
               Inl e \<Rightarrow> (Inl e, s1)
             | Inr row \<Rightarrow>
               (let weather_code = CurrentWeatherCode row;
                    weather_description = weather_description_of weather_code;
                    icon_code = icon_code_of weather_code;
                    weather_icon_url = weather_icon_url_of icon_code
                in case py_round1 sv (AvgTemp row) of
                     Inl e \<Rightarrow> (Inl e, s1)
                   | Inr avg_temp \<Rightarrow>
                       (case py_round1 sv (AvgWind row) of
                          Inl e \<Rightarrow> (Inl e, s1)
                        | Inr avg_wind \<Rightarrow>
                            (Inr (Some
                               [(''min_temp'', MinTemp row),
                                (''max_temp'', MaxTemp row),
                                (''avg_temp'', avg_temp),
                                (''min_wind'', MinWind row),
                                (''max_wind'', MaxWind row),
                                (''avg_wind'', avg_wind),
                                (''current_max_temp'', CurrentMaxTemp row),
                                (''current_min_temp'', CurrentMinTemp row),
                                (''current_wind'', CurrentWind row),
                                (''weather_description'', PStr weather_description),
                                (''weather_icon_url'', PStr weather_icon_url)]), s1)))))"

subsection \<open>The /weather handler\<close>

datatype 'n response =
    HTMLResponse string
  | TemplateResponse string "(string \<times> 'n pyval) list"

definition error_page :: "exn \<Rightarrow> 'n response" where
  "error_page e = HTMLResponse (''<p>An error occurred: '' @ str_exn e @ ''</p>'')"

definition get_weather ::
  "('w, 'n) services \<Rightarrow> string \<Rightarrow> 'w state \<Rightarrow> 'n response \<times> 'w state" where
  "get_weather sv city s =
     (if \<not> query_client_ok sv \<or> \<not> ingest_client_ok sv then
        (HTMLResponse ''<p>Error: Kusto clients not properly initialized</p>'', s)
      else
        (case get_city_coordinates sv city s of
           ((lat, lon, guessed_city), s1) \<Rightarrow>
             if guessed_city = PNone then
               (HTMLResponse ''<p>Error: Invalid city name, please try again.</p>'', s1)
             else
               (case py_lower guessed_city of
                  Inl e \<Rightarrow> (error_page e, s1)
                | Inr guessed_lower \<Rightarrow>
                    if str_lower city \<noteq> guessed_lower then
                      (HTMLResponse (''<p>Error: Inaccurate city name, Did you mean '' @
                         py_str (str_num sv) guessed_city @ ''? </p>''), s1)
                    else
                      (let city = str_lower city in
                       case ensure_fresh_data sv city lat lon s1 of
                         (Inl e, s2) \<Rightarrow> (error_page e, s2)
                       | (Inr fresh, s2) \<Rightarrow>
                           if \<not> fresh then
                             (HTMLResponse ''<p>Error: Could not ensure fresh weather data.</p>'', s2)
                           else
                             (case get_weather_stats sv city s2 of
                                (Inl e, s3) \<Rightarrow> (error_page e, s3)
                              | (Inr None, s3) \<Rightarrow>
                                  (HTMLResponse
                                     ''<p>Error: Could not retrieve weather data from database.</p>'', s3)
                              | (Inr (Some stats), s3) \<Rightarrow>
                                  (TemplateResponse (str_capitalize city) stats, s3))))))"

section \<open>src/main.py\<close>

text \<open>
  The earlier handler, kept beside the image's. Its \<open>prepare_ingestion_data\<close> is the
  same function, line for line; its definitions here carry the suffix \<open>_root\<close>.
\<close>

text \<open>
  The tuple returned, as the list of its items: three on success, two otherwise.
\<close>

definition get_city_coordinates_root ::
  "('w, 'n) services \<Rightarrow> string \<Rightarrow> 'w state \<Rightarrow> 'n pyval list \<times> 'w state" where
  "get_city_coordinates_root sv city s =
     (case call_geo sv city s of
        (Inl e, s') \<Rightarrow> ([PNone, PNone], s')
      | (Inr geo_data, s') \<Rightarrow>
          (case geo_data of
             Some (result # rest) \<Rightarrow>
               ([PNum (latitude result), PNum (longitude result), PStr (name result)], s')
           | _ \<Rightarrow> ([PNone, PNone], s')))"

text \<open>\<open>a, b, c = t\<close>: ValueError unless the tuple has three items.\<close>

definition unpack3 :: "'a list \<Rightarrow> exn + 'a \<times> 'a \<times> 'a" where
  "unpack3 t =
     (case t of
        [a, b, c] \<Rightarrow> Inr (a, b, c)
      | _ \<Rightarrow>
          if length t < 3 then
            Inl (ValueError (''not enough values to unpack (expected 3, got '' @
                             [digit_char (length t)] @ '')''))
          else Inl (ValueError ''too many values to unpack (expected 3)''))"

definition get_weather_data_root ::
  "('w, 'n) services \<Rightarrow> string \<Rightarrow> 'n pyval \<Rightarrow> 'n pyval \<Rightarrow> 'w state \<Rightarrow> 'n weather_json option \<times> 'w state" where
  "get_weather_data_root sv city lat lon s =
     (case call_forecast sv lat lon s of
        (Inl e, s') \<Rightarrow> (None, s')
      | (Inr j, s') \<Rightarrow> (Some j, s'))"

text \<open>\<open>table[0]['RecordCount'] if table else 0\<close>.\<close>

definition record_count_of :: "int list \<Rightarrow> exn + int" where
  "record_count_of rows = (if table_truthy rows then table_first rows else Inr 0)"

text \<open>
  Lines 192 to 244, entered when fewer than 30 rows are stored: \<open>Some\<close> is the
  response returned from inside the block, \<open>None\<close> falls through to the statistics.
\<close>

definition refresh_root ::
  "('w, 'n) services \<Rightarrow> string \<Rightarrow> 'n pyval \<Rightarrow> 'n pyval \<Rightarrow> 'w state \<Rightarrow>
     (exn + 'n response option) \<times> 'w state" where
  "refresh_root sv city lat lon s =
     (if lat = PNone \<or> lon = PNone then
        (Inr (Some (HTMLResponse ''<p>Could not find coordinates for this city.</p>'')), s)
      else
        (case get_weather_data_root sv city lat lon s of
           (weather_data, s1) \<Rightarrow>
             if weather_data_invalid weather_data then
               (Inr (Some (HTMLResponse ''<p>Error: Invalid response from weather API.</p>'')), s1)
             else
               (case weather_data_daily weather_data of
                  Inl e \<Rightarrow> (Inl e, s1)
                | Inr daily_data \<Rightarrow>
                    (case call_prepare sv city daily_data s1 of
                       (None, s1) \<Rightarrow>
                         (Inr (Some (HTMLResponse
                            ''<p>Error: Could not prepare weather data for storage.</p>'')), s1)
                     | (Some (ingestion_data, weather_attributes), s1) \<Rightarrow>
                         if ingestion_data = [] then
                           (Inr (Some (HTMLResponse
                              ''<p>Error: Could not prepare weather data for storage.</p>'')), s1)
                         else
                           (let csv_data = join_str [CHR 0x0A] ingestion_data in
                            case call_ingest sv csv_data s1 of
                              (Inl e, s2) \<Rightarrow>
                                (Inr (Some (HTMLResponse
                                   (''<p>Error storing weather data: '' @ str_exn e @ ''</p>''))), s2)
                            | (Inr u, s2) \<Rightarrow>
                                (case call_record_count sv city (sleep 3 s2) of
                                   (Inl e, s3) \<Rightarrow>
                                     (Inr (Some (HTMLResponse
                                        (''<p>Error storing weather data: '' @ str_exn e @ ''</p>''))), s3)
                                 | (Inr rows, s3) \<Rightarrow>
                                     (case record_count_of rows of
                                        Inl e \<Rightarrow>
                                          (Inr (Some (HTMLResponse
                                             (''<p>Error storing weather data: '' @ str_exn e @ ''</p>''))), s3)
                                      | Inr verify_count \<Rightarrow>
                                          if verify_count < 30 then
                                            (Inr (Some (HTMLResponse
                                               ''<p>Error: Data storage verification failed. Please try again in a few minutes.</p>'')), s3)
                                          else (Inr None, s3))))))))"

text \<open>Lines 246 to 285: the statistics query and the page.\<close>

definition stats_root ::
  "('w, 'n) services \<Rightarrow> string \<Rightarrow> 'w state \<Rightarrow> (exn + 'n response) \<times> 'w state" where
  "stats_root sv city s =
     (case call_stats sv city s of
        (Inl e, s1) \<Rightarrow> (Inl e, s1)
      | (Inr rows, s1) \<Rightarrow>
          if \<not> table_truthy rows then
            (Inr (HTMLResponse ''<p>Error: Could not retrieve weather data from database.</p>''), s1)
          else
          (case table_first rows of
             Inl e \<Rightarrow> (Inl e, s1)
           | Inr row \<Rightarrow>
               (case py_round1 sv (AvgTemp row) of
                  Inl e \<Rightarrow> (Inl e, s1)
                | Inr avg_temp \<Rightarrow>
                    (case py_round1 sv (AvgWind row) of
                       Inl e \<Rightarrow> (Inl e, s1)
                     | Inr avg_wind \<Rightarrow>
                         (Inr (TemplateResponse (str_capitalize city)
                            [(''min_temp'', MinTemp row),
                             (''max_temp'', MaxTemp row),
                             (''avg_temp'', avg_temp),
                             (''min_wind'', MinWind row),
                             (''max_wind'', MaxWind row),
                             (''avg_wind'', avg_wind),
                             (''current_max_temp'', CurrentMaxTemp row),
                             (''current_min_temp'', CurrentMinTemp row),
                             (''current_wind'', CurrentWind row)]), s1)))))"

text \<open>
  The body of the handler's \<open>try\<close>: \<open>Inl\<close> is an exception that reaches the final
  \<open>except Exception\<close>.
\<close>

definition get_weather_try_root ::
  "('w, 'n) services \<Rightarrow> string \<Rightarrow> 'w state \<Rightarrow> (exn + 'n response) \<times> 'w state" where
  "get_weather_try_root sv city s =
     (case get_city_coordinates_root sv city s of
        (t, s1) \<Rightarrow>
          (case unpack3 t of
             Inl e \<Rightarrow> (Inl e, s1)
           | Inr (lat, lon, guessed_city) \<Rightarrow>
               (case py_lower guessed_city of
                  Inl e \<Rightarrow> (Inl e, s1)
                | Inr city \<Rightarrow>
                    (case call_record_count sv city s1 of
                       (Inl e, s2) \<Rightarrow> (Inl e, s2)
                     | (Inr rows, s2) \<Rightarrow>
                         (case record_count_of rows of
                            Inl e \<Rightarrow> (Inl e, s2)
                          | Inr result_count \<Rightarrow>
                              if result_count < 30 then
                                (case refresh_root sv city lat lon s2 of
                                   (Inl e, s3) \<Rightarrow> (Inl e, s3)
                                 | (Inr (Some resp), s3) \<Rightarrow> (Inr resp, s3)
                                 | (Inr None, s3) \<Rightarrow> stats_root sv city s3)
                              else stats_root sv city s2)))))"

definition get_weather_root ::
  "('w, 'n) services \<Rightarrow> string \<Rightarrow> 'w state \<Rightarrow> 'n response \<times> 'w state" where
  "get_weather_root sv city s =
     (if \<not> query_client_ok sv \<or> \<not> ingest_client_ok sv then
        (HTMLResponse ''<p>Error: Kusto clients not properly initialized</p>'', s)
      else
        (case get_weather_try_root sv city s of
           (Inl e, s1) \<Rightarrow> (error_page e, s1)
         | (Inr resp, s1) \<Rightarrow> (resp, s1)))"

section \<open>The filter, as the specification words it\<close>

text \<open>
  The date indices whose date is absent from the existing dates, and the series cut
  down to them: every sequence by the same indices.
\<close>

definition kept_indices :: "'n pyval list \<Rightarrow> string list \<Rightarrow> nat list" where
  "kept_indices dates existing_dates =
     filter (\<lambda>i. not_in_existing (dates ! i) existing_dates) [0 ..< length dates]"

definition select_indices :: "nat list \<Rightarrow> 'n daily_data \<Rightarrow> 'n daily_data" where
  "select_indices idx daily_data = map (\<lambda>(k, xs). (k, map (\<lambda>i. xs ! i) idx)) daily_data"

text \<open>
  The row of a date index, as the specification words it: the city, the date, then the
  cell of every attribute other than \<open>time\<close>, in the order of the series' keys.
\<close>

definition weather_attributes_of :: "'n daily_data \<Rightarrow> string list" where
  "weather_attributes_of daily_data = filter (\<lambda>key. key \<noteq> ''time'') (keys daily_data)"

definition date_text :: "'n pyval \<Rightarrow> string" where
  "date_text v = (case v of PStr x \<Rightarrow> x | _ \<Rightarrow> [])"

definition row_fields ::
  "('n \<Rightarrow> string) \<Rightarrow> string \<Rightarrow> 'n daily_data \<Rightarrow> 'n pyval list \<Rightarrow> nat \<Rightarrow> string list" where
  "row_fields sn city daily_data dates i =
     city # date_text (dates ! i) #
     map (\<lambda>attr. cell sn (dict_get daily_data attr [] ! i)) (weather_attributes_of daily_data)"

section \<open>A scripted environment\<close>

text \<open>
  Services with fixed answers, for running the pipeline on concrete inputs. The world
  is the number of batches appended so far: the freshness query answers \<open>rows0\<close>
  until the first append and \<open>rows1\<close> from then on; today is 2025-02-18.
\<close>

definition demo_stats_row :: "string stats_row" where
  "demo_stats_row =
     \<lparr>MinTemp = PNum ''3.1'', MaxTemp = PNum ''14.2'', AvgTemp = PNum ''8.6'',
      MinWind = PNum ''4.0'', MaxWind = PNum ''30.5'', AvgWind = PNum ''12.3'',
      CurrentMaxTemp = PNum ''11.0'', CurrentMinTemp = PNum ''5.5'',
      CurrentWind = PNum ''9.9'', CurrentWeatherCode = Some 7\<rparr>"

definition scripted_services ::
  "(exn + latest_row list) \<Rightarrow> (exn + latest_row list) \<Rightarrow> (exn + string weather_json) \<Rightarrow>
   string list list \<Rightarrow> (exn + string geo_result list option) \<Rightarrow> (nat, string) services" where
  "scripted_services rows0 rows1 forecast existing geo =
     \<lparr>query_client_ok = True,
      ingest_client_ok = True,
      now_date = (\<lambda>w. \<lparr>year = 2025, month = 2, day = 18\<rparr>),
      execute_latest_date = (\<lambda>city w. (if w = 0 then rows0 else rows1, w)),
      execute_existing_dates = (\<lambda>city w. (Inr existing, w)),
      execute_stats = (\<lambda>city w. (Inr [demo_stats_row], w)),
      execute_record_count = (\<lambda>city w. (Inr [if w = 0 then 0 else 31], w)),
      geo_get = (\<lambda>city w. (geo, w)),
      forecast_get = (\<lambda>lat lon w. (forecast, w)),
      ingest_from_stream = (\<lambda>csv_data w. (Inr (), Suc w)),
      str_num = (\<lambda>n. n),
      round1 = (\<lambda>n. n)\<rparr>"

text \<open>
  A one-row answer of the freshness query with a date of February 2025, a store that
  cannot be reached, and a forecast service that cannot be reached.
\<close>

definition latest :: "nat \<Rightarrow> int \<Rightarrow> latest_row list" where
  "latest dd n = [\<lparr>LatestDate = Some \<lparr>year = 2025, month = 2, day = dd\<rparr>, DataPoints = n\<rparr>]"

text \<open>
  The answer of the freshness query for a city with no stored rows: the ungrouped
  \<open>summarize\<close> gives one row, with a null \<open>max(Date)\<close> and a count of 0.
\<close>

definition no_stored_rows :: "latest_row list" where
  "no_stored_rows = [\<lparr>LatestDate = None, DataPoints = 0\<rparr>]"

definition store_down :: "exn + 'a" where
  "store_down = Inl (ExternalError ''store unreachable'')"

definition forecast_down :: "exn + string weather_json" where
  "forecast_down = Inl (ExternalError ''forecast unreachable'')"

text \<open>A series of two days with two attributes, and the geocoder's answer for Paris.\<close>

definition two_days :: "string daily_data" where
  "two_days =
     [(''time'', [PStr ''2025-02-17'', PStr ''2025-02-18'']),
      (''weather_code'', [PNum ''3'', PNum ''61'']),
      (''temperature_2m_max'', [PNum ''9.5'', PNone])]"

definition paris :: "string geo_result" where
  "paris = \<lparr>latitude = ''48.85'', longitude = ''2.35'', name = ''Paris''\<rparr>"

lemma weather_codes_keys:
  "keys weather_codes =
     [0, 1, 2, 3, 45, 48, 51, 53, 55, 61, 63, 65, 71, 73, 75, 77, 80, 81, 82, 85, 86, 95, 96, 99]"
  by (simp add: keys_def weather_codes_def)

lemma icon_map_keys: "keys icon_map = keys weather_codes"
  by (simp add: keys_def weather_codes_def icon_map_def)

lemma dict_get_absent: "k \<notin> set (keys d) \<Longrightarrow> dict_get d k dflt = dflt"
proof -
  assume "k \<notin> set (keys d)"
  then have "map_of d k = None" by (simp add: keys_def map_of_eq_None_iff)
  then show ?thesis by (simp add: dict_get_def)
qed

section \<open>Dates: formatting and parsing are inverse\<close>

lemma digit_char_code: "(of_char (digit_char n) :: nat) = 48 + n mod 10"
proof -
  have "48 + n mod 10 < 256" by simp
  then have "(48 + n mod 10) mod 256 = 48 + n mod 10" by (rule mod_less)
  then show ?thesis by (simp only: digit_char_def of_char_of)
qed

lemma digit_char_not_dash: "digit_char n \<noteq> CHR ''-''"
proof
  assume "digit_char n = CHR ''-''"
  then have "(of_char (digit_char n) :: nat) = of_char (CHR ''-'')" by (rule arg_cong)
  then have "48 + n mod 10 = (45::nat)" by (simp add: digit_char_code)
  then show False by simp
qed

lemma is_digit_digit_char: "is_digit (digit_char n)"
  by (simp add: is_digit_def digit_char_code)

lemma split_on_digit:
  "split_on (CHR ''-'') (digit_char n # xs) =
     (case split_on (CHR ''-'') xs of [] \<Rightarrow> [[digit_char n]] | w # ws \<Rightarrow> (digit_char n # w) # ws)"
  by (simp add: digit_char_not_dash)

lemma split_on_dash: "split_on (CHR ''-'') (CHR ''-'' # xs) = [] # split_on (CHR ''-'') xs"
  by simp

lemma split_ymd:
  "split_on (CHR ''-'') ([digit_char a, digit_char b, digit_char c, digit_char d] @ ''-'' @
      [digit_char e, digit_char f] @ ''-'' @ [digit_char g, digit_char h]) =
   [[digit_char a, digit_char b, digit_char c, digit_char d], [digit_char e, digit_char f],
    [digit_char g, digit_char h]]"
  by (simp only: append.simps split_on_digit split_on_dash split_on.simps(1) list.case)

lemma digits_val4:
  "digits_val [digit_char a, digit_char b, digit_char c, digit_char d] =
     1000 * (a mod 10) + 100 * (b mod 10) + 10 * (c mod 10) + d mod 10"
  by (simp add: digits_val_def digit_char_code)

lemma digits_val2: "digits_val [digit_char c, digit_char d] = 10 * (c mod 10) + d mod 10"
  by (simp add: digits_val_def digit_char_code)

lemma two_digits: "y \<le> 99 \<Longrightarrow> 10 * (y div 10 mod 10) + y mod 10 = (y::nat)"
proof -
  assume "y \<le> 99"
  then have "y div 10 < 10" by simp
  then have "y div 10 mod 10 = y div 10" by simp
  then show ?thesis by simp
qed

lemma four_digits:
  assumes "y \<le> 9999"
  shows "1000 * (y div 1000 mod 10) + 100 * (y div 100 mod 10) + 10 * (y div 10 mod 10) +
           y mod 10 = (y::nat)"
proof -
  define a where "a = y div 10"
  define b where "b = a div 10"
  define c where "c = b div 10"
  have e1: "y div 100 = b" unfolding b_def a_def by (simp add: div_mult2_eq[symmetric])
  have e2: "y div 1000 = c" unfolding c_def b_def a_def by (simp add: div_mult2_eq[symmetric])
  have "c < 10" using assms unfolding e2[symmetric] by simp
  then have c: "c mod 10 = c" by simp
  have y: "y = 10 * a + y mod 10" unfolding a_def by simp
  have a: "a = 10 * b + a mod 10" unfolding b_def by simp
  have b: "b = 10 * c + b mod 10" unfolding c_def by simp
  show ?thesis
    unfolding e1 e2 c a_def[symmetric] using y a b by linarith
qed

lemma days_in_month_le: "1 \<le> m \<Longrightarrow> m \<le> 12 \<Longrightarrow> days_in_month y m \<le> 31"
proof -
  assume "1 \<le> m" "m \<le> 12"
  then have "m = 1 \<or> m = 2 \<or> m = 3 \<or> m = 4 \<or> m = 5 \<or> m = 6 \<or> m = 7 \<or> m = 8 \<or> m = 9 \<or>
     m = 10 \<or> m = 11 \<or> m = 12" by arith
  then show ?thesis
    by (elim disjE) (simp_all add: days_in_month_def DAYS_IN_MONTH_def)
qed

lemma strptime_strftime:
  assumes "valid_date d"
  shows "strptime_ymd (strftime_ymd d) = Inr d"
proof -
  have y: "year d \<le> 9999" and m: "month d \<le> 12"
    and dd: "day d \<le> days_in_month (year d) (month d)" and m1: "1 \<le> month d"
    using assms by (simp_all add: valid_date_def)
  have "day d \<le> 31" using days_in_month_le[OF m1 m] dd by (rule_tac order_trans)
  then have d99: "day d \<le> 99" by simp
  have m99: "month d \<le> 99" using m by simp
  have vy: "digits_val [digit_char (year d div 1000), digit_char (year d div 100),
      digit_char (year d div 10), digit_char (year d)] = year d"
    by (simp only: digits_val4 four_digits[OF y])
  have vm: "digits_val [digit_char (month d div 10), digit_char (month d)] = month d"
    by (simp only: digits_val2 two_digits[OF m99])
  have vd: "digits_val [digit_char (day d div 10), digit_char (day d)] = day d"
    by (simp only: digits_val2 two_digits[OF d99])
  have rec: "\<lparr>year = year d, month = month d, day = day d\<rparr> = d" by simp
  show ?thesis
    unfolding strptime_ymd_def strftime_ymd_def split_ymd
    by (simp add: vy vm vd is_digit_digit_char rec assms)
qed

lemma strftime_nonempty: "strftime_ymd d \<noteq> []"
  by (simp add: strftime_ymd_def)

section \<open>check_data_freshness\<close>

lemma freshness_of_dated:
  assumes "LatestDate row = Some d" and "valid_date d"
  shows "freshness_of (row # rest) today =
           Inr (\<bar>toordinal today - toordinal d\<bar> \<le> 1 \<and> 30 \<le> DataPoints row, strftime_ymd d)"
  using assms
  by (simp add: freshness_of_def table_truthy_def table_first_def strptime_strftime Let_def)

lemma freshness_of_no_rows: "freshness_of [] today = Inl IndexError"
  by (simp add: freshness_of_def table_truthy_def table_first_def)

lemma freshness_of_null:
  "LatestDate row = None \<Longrightarrow> freshness_of (row # rest) today = Inr (False, [])"
  by (simp add: freshness_of_def table_truthy_def table_first_def)

lemma check_data_freshness_rows:
  assumes "execute_latest_date sv city w = (Inr rows, w')"
  shows "check_data_freshness sv city (w, log) =
           (freshness_of rows (now_date sv w'),
            (w', log @ [Ev_check city (freshness_of rows (now_date sv w'))]))"
  using assms by (simp add: check_data_freshness_def Let_def)

lemma check_data_freshness_raises:
  assumes "execute_latest_date sv city w = (Inl e, w')"
  shows "check_data_freshness sv city (w, log) = (Inl e, (w', log @ [Ev_check city (Inl e)]))"
  using assms by (simp add: check_data_freshness_def Let_def)

section \<open>The scripted environment, evaluated\<close>

lemma scripted_sel:
  "query_client_ok (scripted_services r0 r1 f ex g) = True"
  "ingest_client_ok (scripted_services r0 r1 f ex g) = True"
  "now_date (scripted_services r0 r1 f ex g) w = \<lparr>year = 2025, month = 2, day = 18\<rparr>"
  "execute_latest_date (scripted_services r0 r1 f ex g) c w = (if w = 0 then r0 else r1, w)"
  "execute_existing_dates (scripted_services r0 r1 f ex g) c w = (Inr ex, w)"
  "execute_stats (scripted_services r0 r1 f ex g) c w = (Inr [demo_stats_row], w)"
  "execute_record_count (scripted_services r0 r1 f ex g) c w = (Inr [if w = 0 then 0 else 31], w)"
  "geo_get (scripted_services r0 r1 f ex g) c w = (g, w)"
  "forecast_get (scripted_services r0 r1 f ex g) la lo w = (f, w)"
  "ingest_from_stream (scripted_services r0 r1 f ex g) x w = (Inr (), Suc w)"
  "str_num (scripted_services r0 r1 f ex g) n = n"
  "round1 (scripted_services r0 r1 f ex g) n = n"
  by (simp_all add: scripted_services_def)

lemma feb_2025:
  "valid_date \<lparr>year = 2025, month = 2, day = 16\<rparr>"
  "valid_date \<lparr>year = 2025, month = 2, day = 17\<rparr>"
  "valid_date \<lparr>year = 2025, month = 2, day = 18\<rparr>"
  "toordinal \<lparr>year = 2025, month = 2, day = 16\<rparr> = 739298"
  "toordinal \<lparr>year = 2025, month = 2, day = 17\<rparr> = 739299"
  "toordinal \<lparr>year = 2025, month = 2, day = 18\<rparr> = 739300"
  "strftime_ymd \<lparr>year = 2025, month = 2, day = 16\<rparr> = ''2025-02-16''"
  "strftime_ymd \<lparr>year = 2025, month = 2, day = 17\<rparr> = ''2025-02-17''"
  "strftime_ymd \<lparr>year = 2025, month = 2, day = 18\<rparr> = ''2025-02-18''"
  by (simp_all add: valid_date_def days_in_month_def toordinal_def days_before_year_def
      days_before_month_def DAYS_IN_MONTH_def is_leap_def strftime_ymd_def digit_char_def
      char_of_def bit_Suc_0_iff)

lemma lower_paris: "str_lower ''paris'' = ''paris''" "str_lower ''Paris'' = ''paris''"
  by (simp_all add: str_lower_def lower_char_def char_of_def bit_Suc_0_iff)

section \<open>Claims about the freshness check\<close>

text \<open>
  C1. When the freshness query returns a row with a latest date (of a year from 1000
  on), the check returns \<open>is_fresh\<close> true exactly when today and that date are at most
  one day apart and the row count is at least 30, together with the date as
  \<open>YYYY-MM-DD\<close>. With 29 rows and a latest date of today it returns false. For a city
  with no stored rows, where the row returned has a null latest date, it returns false
  and the empty string.
\<close>

theorem check_data_freshness_is_fresh:
  assumes "execute_latest_date sv city w = (Inr (row # rest), w')"
  shows "(LatestDate row = Some d \<and> valid_date d \<and> 1000 \<le> year d \<longrightarrow>
            fst (check_data_freshness sv city (w, log)) =
              Inr (\<bar>toordinal (now_date sv w') - toordinal d\<bar> \<le> 1 \<and> 30 \<le> DataPoints row,
                   strftime_ymd d)) \<and>
         (LatestDate row = Some d \<and> valid_date d \<and> 1000 \<le> year d \<and>
          DataPoints row = 29 \<and> now_date sv w' = d \<longrightarrow>
            fst (check_data_freshness sv city (w, log)) = Inr (False, strftime_ymd d)) \<and>
         (LatestDate row = None \<longrightarrow>
            fst (check_data_freshness sv city (w, log)) = Inr (False, []))"
proof -
  have c: "fst (check_data_freshness sv city (w, log)) =
             freshness_of (row # rest) (now_date sv w')"
    by (simp add: check_data_freshness_rows[OF assms])
  show ?thesis
    unfolding c
    by (auto simp: freshness_of_dated freshness_of_null)
qed

theorem check_data_freshness_is_fresh_witness:
  "fst (check_data_freshness (scripted_services (Inr (latest 17 30)) (Inr []) forecast_down [] (Inr None))
          ''paris'' (0, [])) = Inr (True, ''2025-02-17'') \<and>
   fst (check_data_freshness (scripted_services (Inr (latest 16 30)) (Inr []) forecast_down [] (Inr None))
          ''paris'' (0, [])) = Inr (False, ''2025-02-16'') \<and>
   fst (check_data_freshness (scripted_services (Inr (latest 18 29)) (Inr []) forecast_down [] (Inr None))
          ''paris'' (0, [])) = Inr (False, ''2025-02-18'') \<and>
   fst (check_data_freshness (scripted_services (Inr no_stored_rows) (Inr []) forecast_down [] (Inr None))
          ''paris'' (0, [])) = Inr (False, [])"
proof -
  let ?a = "scripted_services (Inr (latest 17 30)) (Inr []) forecast_down [] (Inr None)"
  let ?b = "scripted_services (Inr (latest 16 30)) (Inr []) forecast_down [] (Inr None)"
  let ?c = "scripted_services (Inr (latest 18 29)) (Inr []) forecast_down [] (Inr None)"
  let ?e = "scripted_services (Inr no_stored_rows) (Inr []) forecast_down [] (Inr None)"
  let ?ra = "\<lparr>LatestDate = Some \<lparr>year = 2025, month = 2, day = 17\<rparr>, DataPoints = 30\<rparr>"
  let ?rb = "\<lparr>LatestDate = Some \<lparr>year = 2025, month = 2, day = 16\<rparr>, DataPoints = 30\<rparr>"
  let ?rc = "\<lparr>LatestDate = Some \<lparr>year = 2025, month = 2, day = 18\<rparr>, DataPoints = 29\<rparr>"
  let ?re = "\<lparr>LatestDate = None, DataPoints = 0\<rparr>"
  have ha: "execute_latest_date ?a ''paris'' 0 = (Inr (?ra # []), 0)"
    and hb: "execute_latest_date ?b ''paris'' 0 = (Inr (?rb # []), 0)"
    and hc: "execute_latest_date ?c ''paris'' 0 = (Inr (?rc # []), 0)"
    and he: "execute_latest_date ?e ''paris'' 0 = (Inr (?re # []), 0)"
    by (simp_all add: scripted_sel latest_def no_stored_rows_def)
  have a: "fst (check_data_freshness ?a ''paris'' (0, [])) = Inr (True, ''2025-02-17'')"
    using check_data_freshness_is_fresh[OF ha, of "\<lparr>year = 2025, month = 2, day = 17\<rparr>" "[]"]
    by (simp add: feb_2025 scripted_sel)
  have b: "fst (check_data_freshness ?b ''paris'' (0, [])) = Inr (False, ''2025-02-16'')"
    using check_data_freshness_is_fresh[OF hb, of "\<lparr>year = 2025, month = 2, day = 16\<rparr>" "[]"]
    by (simp add: feb_2025 scripted_sel)
  have c: "fst (check_data_freshness ?c ''paris'' (0, [])) = Inr (False, ''2025-02-18'')"
    using check_data_freshness_is_fresh[OF hc, of "\<lparr>year = 2025, month = 2, day = 18\<rparr>" "[]"]
    by (simp add: feb_2025 scripted_sel)
  have e: "fst (check_data_freshness ?e ''paris'' (0, [])) = Inr (False, [])"
    using check_data_freshness_is_fresh[OF he] by simp
  from a b c e show ?thesis by simp
qed

lemma ensure_fresh_data_raises:
  assumes "execute_latest_date sv city w = (Inl e, w')"
  shows "ensure_fresh_data sv city lat lon (w, log) = (Inl e, (w', log @ [Ev_check city (Inl e)]))"
  by (simp add: ensure_fresh_data_def check_data_freshness_raises[OF assms])

lemma get_city_coordinates_found:
  assumes "geo_get sv city w = (Inr (Some (r # rs)), w')"
  shows "get_city_coordinates sv city (w, log) =
           ((PNum (latitude r), PNum (longitude r), PStr (name r)), (w', log @ [Ev_geo city]))"
  using assms by (simp add: get_city_coordinates_def call_geo_def)

text \<open>
  C7. When the store query of the freshness check raises, the check raises the same
  exception: it does not return \<open>(False, date)\<close>. From the first check of
  \<open>ensure_fresh_data\<close> the exception propagates to the handler, whose final
  \<open>except\<close> turns it into the error page.
\<close>

theorem check_data_freshness_store_failure:
  assumes "execute_latest_date sv city w = (Inl e, w')"
  shows "fst (check_data_freshness sv city (w, log)) = Inl e \<and>
         (\<forall>d. fst (check_data_freshness sv city (w, log)) \<noteq> Inr (False, d)) \<and>
         fst (ensure_fresh_data sv city lat lon (w, log)) = Inl e \<and>
         (query_client_ok sv \<and> ingest_client_ok sv \<and>
          geo_get sv asked w0 = (Inr (Some (r # rs)), w) \<and>
          str_lower asked = str_lower (name r) \<and> city = str_lower asked \<longrightarrow>
            fst (get_weather sv asked (w0, log0)) = error_page e)"
proof -
  have c: "fst (check_data_freshness sv city (w, log)) = Inl e"
    by (simp add: check_data_freshness_raises[OF assms])
  have f: "fst (ensure_fresh_data sv city lat lon (w, log)) = Inl e"
    by (simp add: ensure_fresh_data_raises[OF assms])
  have h: "query_client_ok sv \<and> ingest_client_ok sv \<and>
          geo_get sv asked w0 = (Inr (Some (r # rs)), w) \<and>
          str_lower asked = str_lower (name r) \<and> city = str_lower asked \<longrightarrow>
            fst (get_weather sv asked (w0, log0)) = error_page e"
  proof
    assume p: "query_client_ok sv \<and> ingest_client_ok sv \<and>
          geo_get sv asked w0 = (Inr (Some (r # rs)), w) \<and>
          str_lower asked = str_lower (name r) \<and> city = str_lower asked"
    then have g: "get_city_coordinates sv asked (w0, log0) =
           ((PNum (latitude r), PNum (longitude r), PStr (name r)), (w, log0 @ [Ev_geo asked]))"
      by (simp add: get_city_coordinates_found)
    have q: "execute_latest_date sv (str_lower asked) w = (Inl e, w')"
      using assms p by simp
    have ok: "\<not> (\<not> query_client_ok sv \<or> \<not> ingest_client_ok sv)"
      and lo: "str_lower asked = str_lower (name r)"
      using p by simp_all
    show "fst (get_weather sv asked (w0, log0)) = error_page e"
      unfolding get_weather_def g
      by (simp only: ok if_False prod.case pyval.distinct py_lower_def pyval.case sum.case lo
            Let_def ensure_fresh_data_raises[OF q[unfolded lo]] fst_conv simp_thms)
  qed
  show ?thesis using c f h by simp
qed

theorem check_data_freshness_store_failure_witness:
  "fst (check_data_freshness (scripted_services store_down (Inr []) forecast_down [] (Inr (Some [paris])))
          ''paris'' (0, [])) = Inl (ExternalError ''store unreachable'') \<and>
   fst (ensure_fresh_data (scripted_services store_down (Inr []) forecast_down [] (Inr (Some [paris])))
          ''paris'' (PNum ''48.85'') (PNum ''2.35'') (0, [])) = Inl (ExternalError ''store unreachable'') \<and>
   fst (get_weather (scripted_services store_down (Inr []) forecast_down [] (Inr (Some [paris])))
          ''Paris'' (0, [])) = HTMLResponse ''<p>An error occurred: store unreachable</p>''"
proof -
  let ?sv = "scripted_services store_down (Inr []) forecast_down [] (Inr (Some [paris]))"
  have h: "execute_latest_date ?sv ''paris'' 0 = (Inl (ExternalError ''store unreachable''), 0)"
    by (simp add: scripted_sel store_down_def)
  have g: "query_client_ok ?sv \<and> ingest_client_ok ?sv \<and>
      geo_get ?sv ''Paris'' 0 = (Inr (Some (paris # [])), 0) \<and>
      str_lower ''Paris'' = str_lower (name paris) \<and> ''paris'' = str_lower ''Paris''"
    by (simp add: scripted_sel paris_def lower_paris)
  from check_data_freshness_store_failure[OF h, of "[]" "PNum ''48.85''" "PNum ''2.35''"
      "''Paris''" 0 paris "[]" "[]"] g
  show ?thesis
    by (simp add: error_page_def)
qed

section \<open>Claims about ensure_fresh_data\<close>

text \<open>
  C3. When the stored data is fresh (latest date within one day of today, at least 30
  rows), \<open>ensure_fresh_data\<close> returns \<open>True\<close> and the trace gains the freshness check
  alone: no forecast fetch, no existing-dates query, no ingest.
\<close>

theorem ensure_fresh_data_fresh_no_calls:
  assumes "execute_latest_date sv city w = (Inr (row # rest), w')"
      and "LatestDate row = Some d" and "valid_date d"
      and "\<bar>toordinal (now_date sv w') - toordinal d\<bar> \<le> 1" and "30 \<le> DataPoints row"
  shows "ensure_fresh_data sv city lat lon (w, log) =
           (Inr True, (w', log @ [Ev_check city (Inr (True, strftime_ymd d))]))"
proof -
  have "freshness_of (row # rest) (now_date sv w') = Inr (True, strftime_ymd d)"
    using assms by (simp add: freshness_of_dated)
  then have "check_data_freshness sv city (w, log) =
      (Inr (True, strftime_ymd d), (w', log @ [Ev_check city (Inr (True, strftime_ymd d))]))"
    by (simp add: check_data_freshness_rows[OF assms(1)])
  then show ?thesis by (simp add: ensure_fresh_data_def)
qed

theorem ensure_fresh_data_fresh_no_calls_witness:
  "ensure_fresh_data (scripted_services (Inr (latest 17 30)) (Inr []) forecast_down [] (Inr None))
      ''paris'' (PNum ''48.85'') (PNum ''2.35'') (0, []) =
     (Inr True, (0, [Ev_check ''paris'' (Inr (True, ''2025-02-17''))]))"
proof -
  let ?sv = "scripted_services (Inr (latest 17 30)) (Inr []) forecast_down [] (Inr None)"
  let ?row = "\<lparr>LatestDate = Some \<lparr>year = 2025, month = 2, day = 17\<rparr>, DataPoints = 30\<rparr>"
  have h: "execute_latest_date ?sv ''paris'' 0 = (Inr (?row # []), 0)"
    by (simp add: scripted_sel latest_def)
  have d: "LatestDate ?row = Some \<lparr>year = 2025, month = 2, day = 17\<rparr>" by simp
  have t: "\<bar>toordinal (now_date ?sv 0) - toordinal \<lparr>year = 2025, month = 2, day = 17\<rparr>\<bar> \<le> 1"
    by (simp add: scripted_sel feb_2025)
  have n: "30 \<le> DataPoints ?row" by simp
  from ensure_fresh_data_fresh_no_calls[OF h d feb_2025(2) t n, of "PNum ''48.85''" "PNum ''2.35''" "[]"]
  show ?thesis by (simp add: feb_2025)
qed

section \<open>Claims about get_weather_stats\<close>

lemma get_weather_stats_row:
  assumes "execute_stats sv city w = (Inr (row # rest), w')"
      and "AvgTemp row = PNum a" and "AvgWind row = PNum b"
  shows "\<exists>stats. get_weather_stats sv city (w, log) = (Inr (Some stats), (w', log @ [Ev_stats city])) \<and>
           map_of stats ''weather_description'' =
             Some (PStr (weather_description_of (CurrentWeatherCode row))) \<and>
           map_of stats ''weather_icon_url'' =
             Some (PStr (weather_icon_url_of (icon_code_of (CurrentWeatherCode row))))"
  using assms
  by (simp add: get_weather_stats_def call_stats_def py_round1_def table_truthy_def
      table_first_def Let_def)

text \<open>
  C9, as the claim states it, gives the lookup table 23 known codes. The table of the
  source has 24 keys.
\<close>

theorem weather_codes_count_counterexample:
  "\<not> (length (keys weather_codes) = 23)"
  by (simp add: weather_codes_keys)

text \<open>
  C9, amended. \<open>get_weather_stats\<close> maps the most recent row's weather code through a
  fixed table of 24 known codes (the icon table has the same keys): code 0 gives
  "Clear sky" and icon "01d", and every code outside the table, 7 for one, gives
  "Unknown" and icon "01d". The description and the icon URL of the returned
  statistics are the ones looked up for the row's code.
\<close>

theorem get_weather_stats_code_lookup:
  "length (keys weather_codes) = 24 \<and> distinct (keys weather_codes) \<and>
   keys icon_map = keys weather_codes \<and>
   weather_description_of (Some 0) = ''Clear sky'' \<and> icon_code_of (Some 0) = ''01d'' \<and>
   (7::int) \<notin> set (keys weather_codes) \<and>
   (c \<notin> set (keys weather_codes) \<longrightarrow>
      weather_description_of (Some c) = ''Unknown'' \<and> icon_code_of (Some c) = ''01d'') \<and>
   (execute_stats sv city w = (Inr (row # rest), w') \<and> AvgTemp row = PNum a \<and> AvgWind row = PNum b \<longrightarrow>
      (\<exists>stats. fst (get_weather_stats sv city (w, log)) = Inr (Some stats) \<and>
         map_of stats ''weather_description'' =
           Some (PStr (weather_description_of (CurrentWeatherCode row))) \<and>
         map_of stats ''weather_icon_url'' =
           Some (PStr (weather_icon_url_of (icon_code_of (CurrentWeatherCode row))))))"
proof -
  have n: "length (keys weather_codes) = 24" and d: "distinct (keys weather_codes)"
    and s: "(7::int) \<notin> set (keys weather_codes)"
    by (simp_all add: weather_codes_keys)
  have z: "weather_description_of (Some 0) = ''Clear sky''" "icon_code_of (Some 0) = ''01d''"
    by (simp_all add: weather_description_of_def icon_code_of_def dict_get_def
        weather_codes_def icon_map_def)
  have u: "c \<notin> set (keys weather_codes) \<longrightarrow>
      weather_description_of (Some c) = ''Unknown'' \<and> icon_code_of (Some c) = ''01d''"
    using dict_get_absent[of c weather_codes] dict_get_absent[of c icon_map]
    by (simp add: weather_description_of_def icon_code_of_def icon_map_keys)
  have g: "execute_stats sv city w = (Inr (row # rest), w') \<and> AvgTemp row = PNum a \<and> AvgWind row = PNum b \<longrightarrow>
      (\<exists>stats. fst (get_weather_stats sv city (w, log)) = Inr (Some stats) \<and>
         map_of stats ''weather_description'' =
           Some (PStr (weather_description_of (CurrentWeatherCode row))) \<and>
         map_of stats ''weather_icon_url'' =
           Some (PStr (weather_icon_url_of (icon_code_of (CurrentWeatherCode row)))))"
  proof
    assume h: "execute_stats sv city w = (Inr (row # rest), w') \<and> AvgTemp row = PNum a \<and> AvgWind row = PNum b"
    from get_weather_stats_row[of sv city w row rest w' a b log] h
    obtain stats where "get_weather_stats sv city (w, log) = (Inr (Some stats), (w', log @ [Ev_stats city]))"
      and "map_of stats ''weather_description'' =
             Some (PStr (weather_description_of (CurrentWeatherCode row)))"
      and "map_of stats ''weather_icon_url'' =
             Some (PStr (weather_icon_url_of (icon_code_of (CurrentWeatherCode row))))"
      by blast
    then show "\<exists>stats. fst (get_weather_stats sv city (w, log)) = Inr (Some stats) \<and>
         map_of stats ''weather_description'' =
           Some (PStr (weather_description_of (CurrentWeatherCode row))) \<and>
         map_of stats ''weather_icon_url'' =
           Some (PStr (weather_icon_url_of (icon_code_of (CurrentWeatherCode row))))"
      by simp
  qed
  show ?thesis using n d icon_map_keys z s u g by blast
qed

theorem get_weather_stats_code_lookup_witness:
  "(7::int) \<notin> set (keys weather_codes) \<and>
   weather_description_of (Some 7) = ''Unknown'' \<and> icon_code_of (Some 7) = ''01d'' \<and>
   (\<exists>stats. fst (get_weather_stats (scripted_services (Inr []) (Inr []) forecast_down [] (Inr None))
                  ''paris'' (0, [])) = Inr (Some stats) \<and>
      map_of stats ''weather_description'' = Some (PStr ''Unknown'') \<and>
      map_of stats ''weather_icon_url'' = Some (PStr ''https://openweathermap.org/img/wn/01d@2x.png''))"
proof -
  let ?sv = "scripted_services (Inr []) (Inr []) forecast_down [] (Inr None)"
  note t = get_weather_stats_code_lookup[of 7 ?sv "''paris''" 0 demo_stats_row "[]" 0
      "''8.6''" "''12.3''" "[]"]
  have h: "execute_stats ?sv ''paris'' 0 = (Inr (demo_stats_row # []), 0) \<and>
     AvgTemp demo_stats_row = PNum ''8.6'' \<and> AvgWind demo_stats_row = PNum ''12.3''"
    by (simp add: scripted_sel demo_stats_row_def)
  have c: "CurrentWeatherCode demo_stats_row = Some 7"
    by (simp add: demo_stats_row_def)
  from t have s: "(7::int) \<notin> set (keys weather_codes)" by (elim conjE)
  from t have ui: "(7::int) \<notin> set (keys weather_codes) \<longrightarrow>
      weather_description_of (Some 7) = ''Unknown'' \<and> icon_code_of (Some 7) = ''01d''"
    by (elim conjE)
  from ui s have u: "weather_description_of (Some 7) = ''Unknown'' \<and> icon_code_of (Some 7) = ''01d''"
    by (rule mp)
  from t have gi: "execute_stats ?sv ''paris'' 0 = (Inr (demo_stats_row # []), 0) \<and>
     AvgTemp demo_stats_row = PNum ''8.6'' \<and> AvgWind demo_stats_row = PNum ''12.3'' \<longrightarrow>
     (\<exists>stats. fst (get_weather_stats ?sv ''paris'' (0, [])) = Inr (Some stats) \<and>
         map_of stats ''weather_description'' =
           Some (PStr (weather_description_of (CurrentWeatherCode demo_stats_row))) \<and>
         map_of stats ''weather_icon_url'' =
           Some (PStr (weather_icon_url_of (icon_code_of (CurrentWeatherCode demo_stats_row)))))"
    by (elim conjE)
  from gi h have "\<exists>stats. fst (get_weather_stats ?sv ''paris'' (0, [])) = Inr (Some stats) \<and>
         map_of stats ''weather_description'' =
           Some (PStr (weather_description_of (CurrentWeatherCode demo_stats_row))) \<and>
         map_of stats ''weather_icon_url'' =
           Some (PStr (weather_icon_url_of (icon_code_of (CurrentWeatherCode demo_stats_row))))"
    by (rule mp)
  then have e: "\<exists>stats. fst (get_weather_stats ?sv ''paris'' (0, [])) = Inr (Some stats) \<and>
      map_of stats ''weather_description'' = Some (PStr ''Unknown'') \<and>
      map_of stats ''weather_icon_url'' = Some (PStr ''https://openweathermap.org/img/wn/01d@2x.png'')"
    unfolding c using u by (simp add: weather_icon_url_of_def)
  from s u e show ?thesis by simp
qed

section \<open>Claims about prepare_ingestion_data\<close>

lemma try_map_total:
  "(\<And>x. x \<in> set xs \<Longrightarrow> f x = Inr (g x)) \<Longrightarrow> try_map f xs = Inr (map g xs)"
  by (induction xs) simp_all

lemma the_strs_all: "the_strs (map PStr xs) = Inr xs"
  by (induction xs) simp_all

lemma str_join_strs: "str_join sep (PStr a # PStr b # map PStr xs) = Inr (join_str sep (a # b # xs))"
  by (simp add: str_join_def the_strs_all)

lemma daily_at_in_range:
  "map_of daily_data attr = Some xs \<Longrightarrow> i < length xs \<Longrightarrow> daily_at daily_data attr i = Inr (xs ! i)"
  by (simp add: daily_at_def dict_item_def)

lemma key_has_sequence:
  assumes "attr \<in> set (keys daily_data)"
  shows "\<exists>xs. map_of daily_data attr = Some xs \<and> (attr, xs) \<in> set daily_data"
proof -
  from assms have "map_of daily_data attr \<noteq> None"
    by (simp add: keys_def map_of_eq_None_iff)
  then obtain xs where "map_of daily_data attr = Some xs" by blast
  then show ?thesis by (blast dest: map_of_SomeD)
qed

lemma daily_at_key:
  assumes len: "\<forall>(k, xs) \<in> set daily_data. n \<le> length xs" and i: "i < n"
      and k: "attr \<in> set (keys daily_data)"
  shows "daily_at daily_data attr i = Inr (dict_get daily_data attr [] ! i)"
proof -
  from key_has_sequence[OF k] obtain xs where m: "map_of daily_data attr = Some xs"
    and mem: "(attr, xs) \<in> set daily_data" by blast
  from len mem have "case (attr, xs) of (k, xs) \<Rightarrow> n \<le> length xs" by (rule bspec)
  then have "n \<le> length xs" by simp
  with i have "i < length xs" by simp
  from daily_at_in_range[OF m this] show ?thesis by (simp only: dict_get_def m option.case)
qed

lemma attr_cells_total:
  assumes len: "\<forall>(k, xs) \<in> set daily_data. n \<le> length xs" and i: "i < n"
      and attrs: "set weather_attributes \<subseteq> set (keys daily_data)"
  shows "try_map (\<lambda>attr. case daily_at daily_data attr i of
                               Inl e \<Rightarrow> Inl e
                             | Inr v \<Rightarrow> Inr (PStr (cell sn v))) weather_attributes =
         Inr (map (\<lambda>attr. PStr (cell sn (dict_get daily_data attr [] ! i))) weather_attributes)"
proof (rule try_map_total)
  fix attr assume "attr \<in> set weather_attributes"
  with attrs have k: "attr \<in> set (keys daily_data)" by (rule_tac subsetD)
  show "(case daily_at daily_data attr i of Inl e \<Rightarrow> Inl e | Inr v \<Rightarrow> Inr (PStr (cell sn v))) =
        Inr (PStr (cell sn (dict_get daily_data attr [] ! i)))"
    by (simp only: daily_at_key[OF len i k] sum.case)
qed

lemma row_values_total:
  assumes len: "\<forall>(k, xs) \<in> set daily_data. n \<le> length xs" and i: "i < n"
      and attrs: "set weather_attributes \<subseteq> set (keys daily_data)"
  shows "row_values sn city daily_data dates weather_attributes i =
           Inr ([PStr city, dates ! i] @
                map (\<lambda>attr. PStr (cell sn (dict_get daily_data attr [] ! i))) weather_attributes)"
  by (simp only: row_values_def attr_cells_total[OF len i attrs] sum.case)

lemma ingestion_row_total:
  assumes len: "\<forall>(k, xs) \<in> set daily_data. n \<le> length xs" and i: "i < n"
      and d: "dates ! i = PStr x"
  shows "ingestion_row sn city daily_data dates (weather_attributes_of daily_data) i =
           Inr (join_str '','' (row_fields sn city daily_data dates i))"
proof -
  have attrs: "set (weather_attributes_of daily_data) \<subseteq> set (keys daily_data)"
    unfolding weather_attributes_of_def by (rule filter_is_subset)
  have m: "map (\<lambda>attr. PStr (cell sn (dict_get daily_data attr [] ! i))) (weather_attributes_of daily_data) =
      map PStr (map (\<lambda>attr. cell sn (dict_get daily_data attr [] ! i)) (weather_attributes_of daily_data))"
    by (simp only: map_map comp_def)
  have t: "date_text (PStr x) = x" by (simp add: date_text_def)
  show ?thesis
    by (simp only: ingestion_row_def row_values_total[OF len i attrs] d sum.case append.simps m
        str_join_strs row_fields_def t)
qed

lemma length_row_fields:
  "length (row_fields sn city daily_data dates i) = 2 + length (weather_attributes_of daily_data)"
  by (simp add: row_fields_def)

lemma prepare_ingestion_data_total:
  assumes time: "map_of daily_data ''time'' = Some dates"
      and len: "\<forall>(k, xs) \<in> set daily_data. length dates \<le> length xs"
      and strs: "\<forall>v \<in> set dates. \<exists>x. v = PStr x"
  shows "prepare_ingestion_data sn city daily_data =
           Some (map (\<lambda>i. join_str '','' (row_fields sn city daily_data dates i)) [0 ..< length dates],
                 weather_attributes_of daily_data)"
proof -
  have ds: "\<exists>x. dates ! i = PStr x" if "i < length dates" for i
  proof -
    from that have "dates ! i \<in> set dates" by (rule nth_mem)
    with strs show ?thesis by (rule bspec)
  qed
  have "try_map (ingestion_row sn city daily_data dates (weather_attributes_of daily_data))
          [0 ..< length dates] =
        Inr (map (\<lambda>i. join_str '','' (row_fields sn city daily_data dates i)) [0 ..< length dates])"
  proof (rule try_map_total)
    fix i assume "i \<in> set [0 ..< length dates]"
    then have i: "i < length dates" by simp
    from ds[OF i] obtain x where "dates ! i = PStr x" ..
    from ingestion_row_total[OF len i this]
    show "ingestion_row sn city daily_data dates (weather_attributes_of daily_data) i =
            Inr (join_str '','' (row_fields sn city daily_data dates i))" .
  qed
  then show ?thesis
    unfolding prepare_ingestion_data_def dict_item_def time weather_attributes_of_def[symmetric]
    by (simp only: option.case sum.case Let_def)
qed

text \<open>
  C8. For a series whose sequences all have the length of \<open>time\<close>, and whose dates are
  strings, \<open>prepare_ingestion_data\<close> returns one row per date, \<open>len(time)\<close> rows, with
  the attribute names other than \<open>time\<close> in the order of the keys. The row of a date
  is the comma-join of its fields: the city, the date, then one cell per attribute in
  that same order, which makes 2 plus the number of attributes.
\<close>

theorem prepare_ingestion_data_rows:
  assumes time: "map_of daily_data ''time'' = Some dates"
      and len: "\<forall>(k, xs) \<in> set daily_data. length xs = length dates"
      and strs: "\<forall>v \<in> set dates. \<exists>x. v = PStr x"
  shows "prepare_ingestion_data sn city daily_data =
           Some (map (\<lambda>i. join_str '','' (row_fields sn city daily_data dates i)) [0 ..< length dates],
                 weather_attributes_of daily_data) \<and>
         length (map (\<lambda>i. join_str '','' (row_fields sn city daily_data dates i)) [0 ..< length dates]) =
           length dates \<and>
         (\<forall>i < length dates.
            length (row_fields sn city daily_data dates i) =
              2 + length (weather_attributes_of daily_data) \<and>
            row_fields sn city daily_data dates i ! 0 = city \<and>
            PStr (row_fields sn city daily_data dates i ! 1) = dates ! i)"
proof -
  have len': "\<forall>(k, xs) \<in> set daily_data. length dates \<le> length xs"
    using len by fastforce
  have p: "prepare_ingestion_data sn city daily_data =
      Some (map (\<lambda>i. join_str '','' (row_fields sn city daily_data dates i)) [0 ..< length dates],
            weather_attributes_of daily_data)"
    by (rule prepare_ingestion_data_total[OF time len' strs])
  have f: "PStr (row_fields sn city daily_data dates i ! 1) = dates ! i" if i: "i < length dates" for i
  proof -
    from i have "dates ! i \<in> set dates" by (rule nth_mem)
    with strs have "\<exists>x. dates ! i = PStr x" by (rule bspec)
    then obtain x where "dates ! i = PStr x" ..
    then show ?thesis by (simp add: row_fields_def date_text_def)
  qed
  have z: "row_fields sn city daily_data dates i ! 0 = city" for i
    by (simp add: row_fields_def)
  show ?thesis
    using p f z by (simp add: length_row_fields)
qed

lemma upt_2: "[0 ..< 2] = [0, Suc 0]"
  by (simp add: numeral_2_eq_2)

lemma two_days_time: "map_of two_days ''time'' = Some [PStr ''2025-02-17'', PStr ''2025-02-18'']"
  by (simp add: two_days_def)

lemma two_days_attributes:
  "weather_attributes_of two_days = [''weather_code'', ''temperature_2m_max'']"
  by (simp add: weather_attributes_of_def two_days_def keys_def)

lemma row_fields_two_days:
  "row_fields (\<lambda>n. n) ''paris'' two_days [PStr ''2025-02-17'', PStr ''2025-02-18''] 0 =
     [''paris'', ''2025-02-17'', ''3'', ''9.5'']"
  "row_fields (\<lambda>n. n) ''paris'' two_days [PStr ''2025-02-17'', PStr ''2025-02-18''] (Suc 0) =
     [''paris'', ''2025-02-18'', ''61'', []]"
  by (simp_all add: row_fields_def weather_attributes_of_def keys_def two_days_def date_text_def
      dict_get_def cell_def py_str_def)

theorem prepare_ingestion_data_rows_witness:
  "map_of two_days ''time'' = Some [PStr ''2025-02-17'', PStr ''2025-02-18''] \<and>
   prepare_ingestion_data (\<lambda>n. n) ''paris'' two_days =
     Some ([''paris,2025-02-17,3,9.5'', ''paris,2025-02-18,61,''],
           [''weather_code'', ''temperature_2m_max''])"
proof -
  let ?dates = "[PStr ''2025-02-17'', PStr ''2025-02-18''] :: string pyval list"
  have len: "\<forall>(k, xs) \<in> set two_days. length xs = length ?dates"
    by (simp add: two_days_def)
  have strs: "\<forall>v \<in> set ?dates. \<exists>x. v = PStr x" by simp
  from prepare_ingestion_data_rows[OF two_days_time len strs, of "\<lambda>n. n" "''paris''"]
  have "prepare_ingestion_data (\<lambda>n. n) ''paris'' two_days =
           Some (map (\<lambda>i. join_str '','' (row_fields (\<lambda>n. n) ''paris'' two_days ?dates i))
                   [0 ..< length ?dates],
                 weather_attributes_of two_days)"
    by (rule conjunct1)
  then have "prepare_ingestion_data (\<lambda>n. n) ''paris'' two_days =
     Some ([''paris,2025-02-17,3,9.5'', ''paris,2025-02-18,61,''],
           [''weather_code'', ''temperature_2m_max''])"
    by (simp add: two_days_attributes upt_2 row_fields_two_days)
  with two_days_time show ?thesis by (rule conjI)
qed

end
